theory Spec2Isabelle
  imports Main
begin

section \<open>The conductor manager of ironic\<close>

text \<open>
  A shallow embedding of \<^verbatim>\<open>ironic/conductor/manager.py\<close>: the RPC methods
  \<^verbatim>\<open>update_node\<close>, \<^verbatim>\<open>change_node_power_state\<close>,
  \<^verbatim>\<open>validate_vendor_action\<close>, \<^verbatim>\<open>do_vendor_action\<close>,
  \<^verbatim>\<open>do_node_deploy\<close> and \<^verbatim>\<open>do_node_tear_down\<close> of
  \<^verbatim>\<open>ConductorManager\<close>. A method takes the world (the node table of the
  database and the trace of reservations and driver calls made so far) and returns what
  Python returns or the exception it raises, together with the world it leaves behind.
  Logging (\<^verbatim>\<open>LOG.debug\<close>, \<^verbatim>\<open>LOG.warn\<close>) and the request context
  are left out.
\<close>

subsection \<open>States, messages and exceptions\<close>

text \<open>
  Modelled from the spec: the module \<^verbatim>\<open>ironic.common.states\<close> is not among
  the sources. The constructors are the constants the manager and the spec name;
  \<^verbatim>\<open>NOSTATE\<close> is Python's \<^verbatim>\<open>None\<close>, the others are distinct
  strings. \<open>OTHER s\<close> is any other value a caller or a driver supplies (the tests
  request the power state \<^verbatim>\<open>"POWER"\<close>).
\<close>

datatype state =
    NOSTATE
  | POWER_ON
  | POWER_OFF
  | ACTIVE
  | DEPLOYING
  | DEPLOYDONE
  | DEPLOYFAIL
  | DELETING
  | DELETED
  | ERROR
  | OTHER string

text \<open>
  Modelled from the spec: the module \<^verbatim>\<open>ironic.common.exception\<close> is not
  among the sources. The constructors are the exception classes the manager raises, the
  ones task acquisition raises (spec 4.3), and the two that Python itself raises in the
  manager's code: \<^verbatim>\<open>AttributeError\<close> on an attribute access that fails,
  carrying the name of the attribute, and \<^verbatim>\<open>TypeError\<close> on a call that is
  given the same keyword twice, carrying the keyword. An exception built from keyword
  arguments carries them in the order the spec lists them. A message is either a literal
  or a format string with the values substituted into it, kept apart: what
  \<^verbatim>\<open>%\<close> renders depends on \<^verbatim>\<open>str\<close> of a state and of an
  exception, which the sources do not show, but the result is always a string.
\<close>

datatype error =
    IronicException msg
  | NodeInWrongPowerState string state
  | UnsupportedDriverExtension string string string
  | InstanceDeployFailure msg
  | InvalidParameterValue msg
  | NodeLocked string string
  | NodeNotFound string
  | DriverNotFound string
  | AttributeError string
  | TypeError string
and msg =
    Text string
  | Format string "fmt_arg list"
and fmt_arg =
    StrArg string
  | StateArg state
  | ExcArg error

subsection \<open>Nodes, node objects and the database\<close>

text \<open>
  The columns of a node row that the manager reads or writes (spec 3). The row is stored
  under its uuid; timestamps, the integer id and the chassis are left out.
\<close>

record node =
  driver :: string
  driver_info :: "string \<rightharpoonup> string"
  extra :: "string \<rightharpoonup> string"
  instance_uuid :: "string option"
  power_state :: state
  target_power_state :: state
  provision_state :: state
  target_provision_state :: state
  last_error :: "msg option"
  reservation :: "string option"

datatype field =
    F_driver
  | F_driver_info
  | F_extra
  | F_instance_uuid
  | F_power_state
  | F_target_power_state
  | F_provision_state
  | F_target_provision_state
  | F_last_error
  | F_reservation

text \<open>
  Modelled from the spec: the class \<^verbatim>\<open>ironic.objects.Node\<close> is not among the
  sources. Spec 4.4.1 describes it as a node record carrying pending field changes plus
  the set of fields that changed, and \<^verbatim>\<open>save\<close> as persisting the changed
  fields; the tests assign a field with \<^verbatim>\<open>node[k] = v\<close> and find it stored
  after the manager saved. So an assignment sets the field and records its name, and
  \<^verbatim>\<open>save\<close> writes exactly the recorded fields to the row and forgets them.
\<close>

record node_obj =
  obj_uuid :: string
  obj_fields :: node
  obj_changes :: "field set"

definition obj_what_changed :: "node_obj \<Rightarrow> field set" where
  "obj_what_changed obj = obj_changes obj"

definition put_power_state :: "state \<Rightarrow> node_obj \<Rightarrow> node_obj" where
  "put_power_state v obj =
     obj\<lparr>obj_fields := (obj_fields obj)\<lparr>power_state := v\<rparr>,
         obj_changes := insert F_power_state (obj_changes obj)\<rparr>"

definition put_target_power_state :: "state \<Rightarrow> node_obj \<Rightarrow> node_obj" where
  "put_target_power_state v obj =
     obj\<lparr>obj_fields := (obj_fields obj)\<lparr>target_power_state := v\<rparr>,
         obj_changes := insert F_target_power_state (obj_changes obj)\<rparr>"

definition put_provision_state :: "state \<Rightarrow> node_obj \<Rightarrow> node_obj" where
  "put_provision_state v obj =
     obj\<lparr>obj_fields := (obj_fields obj)\<lparr>provision_state := v\<rparr>,
         obj_changes := insert F_provision_state (obj_changes obj)\<rparr>"

definition put_target_provision_state :: "state \<Rightarrow> node_obj \<Rightarrow> node_obj" where
  "put_target_provision_state v obj =
     obj\<lparr>obj_fields := (obj_fields obj)\<lparr>target_provision_state := v\<rparr>,
         obj_changes := insert F_target_provision_state (obj_changes obj)\<rparr>"

definition put_last_error :: "msg option \<Rightarrow> node_obj \<Rightarrow> node_obj" where
  "put_last_error v obj =
     obj\<lparr>obj_fields := (obj_fields obj)\<lparr>last_error := v\<rparr>,
         obj_changes := insert F_last_error (obj_changes obj)\<rparr>"

text \<open>
  The world: the node table, by uuid, and the trace of what has been done to the outside:
  reservations taken and released, and driver methods called, oldest first.
\<close>

datatype event =
    Reserve string string
  | Release string string
  | PowerValidate
  | GetPowerState
  | SetPowerState state
  | DeployValidate
  | Deploy
  | TearDown
  | VendorValidate string
  | VendorPassthru string

record world =
  nodes :: "string \<rightharpoonup> node"
  trace :: "event list"

definition update_columns :: "field set \<Rightarrow> node \<Rightarrow> node \<Rightarrow> node" where
  "update_columns ch src row =
     row\<lparr>driver := (if F_driver \<in> ch then driver src else driver row),
         driver_info := (if F_driver_info \<in> ch then driver_info src else driver_info row),
         extra := (if F_extra \<in> ch then extra src else extra row),
         instance_uuid := (if F_instance_uuid \<in> ch then instance_uuid src else instance_uuid row),
         power_state := (if F_power_state \<in> ch then power_state src else power_state row),
         target_power_state :=
           (if F_target_power_state \<in> ch then target_power_state src else target_power_state row),
         provision_state :=
           (if F_provision_state \<in> ch then provision_state src else provision_state row),
         target_provision_state :=
           (if F_target_provision_state \<in> ch then target_provision_state src
            else target_provision_state row),
         last_error := (if F_last_error \<in> ch then last_error src else last_error row),
         reservation := (if F_reservation \<in> ch then reservation src else reservation row)\<rparr>"

text \<open>
  \<^verbatim>\<open>node.save(context)\<close>. The manager saves only inside a task that has
  loaded the row under the same uuid, so the row is there; what the database layer does
  for a row that has vanished is outside the model, and a missing row is left missing.
\<close>

definition save :: "node_obj \<Rightarrow> world \<Rightarrow> node_obj \<times> world" where
  "save obj w =
     (obj\<lparr>obj_changes := {}\<rparr>,
      (case nodes w (obj_uuid obj) of
         None \<Rightarrow> w
       | Some row \<Rightarrow>
           w\<lparr>nodes := (nodes w)(obj_uuid obj \<mapsto>
                update_columns (obj_changes obj) (obj_fields obj) row)\<rparr>))"

subsection \<open>Drivers and tasks\<close>

text \<open>
  The drivers are outside the manager: a driver is a parameter, a bundle of capability
  methods, each of which returns a value or raises (spec 4.2). The vendor capability is
  optional: the driver object has no \<^verbatim>\<open>vendor\<close> attribute, or the attribute
  is \<^verbatim>\<open>None\<close> (as in the test that sets
  \<^verbatim>\<open>self.driver.vendor = None\<close>), or it is the capability object. The keyword
  arguments \<^verbatim>\<open>**info\<close> reach a vendor method as the dictionary
  \<^verbatim>\<open>info\<close>.
\<close>

record vendor_iface =
  vendor_validate :: "node_obj \<Rightarrow> string \<Rightarrow> (string \<rightharpoonup> string) \<Rightarrow> error + string"
  vendor_passthru :: "node_obj \<Rightarrow> string \<Rightarrow> (string \<rightharpoonup> string) \<Rightarrow> error + unit"

datatype vendor_attr =
    VendorAbsent
  | VendorNone
  | Vendor vendor_iface

record driver_bundle =
  power_validate :: "node_obj \<Rightarrow> error + unit"
  get_power_state :: "node_obj \<Rightarrow> error + state"
  set_power_state :: "node_obj \<Rightarrow> state \<Rightarrow> error + unit"
  deploy_validate :: "node_obj \<Rightarrow> error + unit"
  deploy :: "node_obj \<Rightarrow> error + state"
  tear_down :: "node_obj \<Rightarrow> error + state"
  vendor :: vendor_attr

type_synonym registry = "string \<rightharpoonup> driver_bundle"

record task =
  task_node :: node_obj
  task_driver :: driver_bundle

text \<open>A call of a driver method: the call is recorded, the driver's answer is passed on.\<close>

definition call :: "event \<Rightarrow> 'a \<Rightarrow> world \<Rightarrow> 'a \<times> world" where
  "call ev answer w = (answer, w\<lparr>trace := trace w @ [ev]\<rparr>)"

text \<open>
  Modelled from the spec: the module \<^verbatim>\<open>ironic.conductor.task_manager\<close> is not
  among the sources. Spec 4.3: load the node (missing: \<^verbatim>\<open>NodeNotFound\<close>); with
  exclusive intent reserve it for this host, which fails with \<^verbatim>\<open>NodeLocked\<close>
  when the row already has a holder; with shared intent take no lock; resolve the driver
  from \<^verbatim>\<open>driver_name\<close> if supplied, else from the node
  (unknown: \<^verbatim>\<open>DriverNotFound\<close>); on leaving the scope, on every path, release
  the reservation, which clears it only where the holder is this host (spec 4.1). An
  acquisition that fails leaves the world as it found it.
\<close>

definition acquire ::
  "registry \<Rightarrow> string \<Rightarrow> string \<Rightarrow> bool \<Rightarrow> string option \<Rightarrow> world \<Rightarrow> (error + task) \<times> world"
where
  "acquire reg host node_id shared driver_name w =
     (case nodes w node_id of
        None \<Rightarrow> (Inl (NodeNotFound node_id), w)
      | Some row \<Rightarrow>
          (case (if shared then None else reservation row) of
             Some holder \<Rightarrow> (Inl (NodeLocked node_id holder), w)
           | None \<Rightarrow>
               (let name = (case driver_name of Some n \<Rightarrow> n | None \<Rightarrow> driver row) in
                case reg name of
                  None \<Rightarrow> (Inl (DriverNotFound name), w)
                | Some d \<Rightarrow>
                    if shared then
                      (Inr \<lparr>task_node =
                              \<lparr>obj_uuid = node_id, obj_fields = row, obj_changes = {}\<rparr>,
                            task_driver = d\<rparr>,
                       w)
                    else
                      (let row' = row\<lparr>reservation := Some host\<rparr> in
                       (Inr \<lparr>task_node =
                               \<lparr>obj_uuid = node_id, obj_fields = row', obj_changes = {}\<rparr>,
                             task_driver = d\<rparr>,
                        w\<lparr>nodes := (nodes w)(node_id \<mapsto> row'),
                          trace := trace w @ [Reserve node_id host]\<rparr>)))))"

definition release :: "string \<Rightarrow> string \<Rightarrow> bool \<Rightarrow> world \<Rightarrow> world" where
  "release host node_id shared w =
     (if shared then w
      else
        (case nodes w node_id of
           None \<Rightarrow> w
         | Some row \<Rightarrow>
             if reservation row = Some host then
               w\<lparr>nodes := (nodes w)(node_id \<mapsto> row\<lparr>reservation := None\<rparr>),
                 trace := trace w @ [Release node_id host]\<rparr>
             else w))"

text \<open>\<^verbatim>\<open>with task_manager.acquire(...) as task: body\<close>\<close>

definition with_task ::
  "registry \<Rightarrow> string \<Rightarrow> string \<Rightarrow> bool \<Rightarrow> string option \<Rightarrow>
   (task \<Rightarrow> world \<Rightarrow> (error + 'a) \<times> world) \<Rightarrow> world \<Rightarrow> (error + 'a) \<times> world"
where
  "with_task reg host node_id shared driver_name body w =
     (case acquire reg host node_id shared driver_name w of
        (Inl e, w1) \<Rightarrow> (Inl e, w1)
      | (Inr task, w1) \<Rightarrow>
          (case body task w1 of
             (result, w2) \<Rightarrow> (result, release host node_id shared w2)))"

subsection \<open>update_node\<close>

text \<open>
  The block under \<^verbatim>\<open>if 'instance_uuid' in delta:\<close>: validate, probe the live
  power state into \<^verbatim>\<open>node_obj['power_state']\<close>, and refuse any state but
  \<^verbatim>\<open>POWER_OFF\<close>.
\<close>

definition update_node_instance_check ::
  "task \<Rightarrow> string \<Rightarrow> node_obj \<Rightarrow> world \<Rightarrow> (error + node_obj) \<times> world"
where
  "update_node_instance_check task node_id node_obj w =
     (case call PowerValidate (power_validate (task_driver task) node_obj) w of
        (Inl e, w1) \<Rightarrow> (Inl e, w1)
      | (Inr _, w1) \<Rightarrow>
          (case call GetPowerState (get_power_state (task_driver task) node_obj) w1 of
             (Inl e, w2) \<Rightarrow> (Inl e, w2)
           | (Inr live, w2) \<Rightarrow>
               (let node_obj = put_power_state live node_obj in
                if power_state (obj_fields node_obj) \<noteq> POWER_OFF then
                  (Inl (NodeInWrongPowerState node_id (power_state (obj_fields node_obj))), w2)
                else (Inr node_obj, w2))))"

definition update_node ::
  "registry \<Rightarrow> string \<Rightarrow> node_obj \<Rightarrow> world \<Rightarrow> (error + node_obj) \<times> world"
where
  "update_node reg host node_obj w =
     (let node_id = obj_uuid node_obj;
          delta = obj_what_changed node_obj in
      if F_power_state \<in> delta then
        (Inl (IronicException
               (Text ''Invalid method call: update_node can not change node state.'')), w)
      else
        (let driver_name =
               (if F_driver \<in> delta then Some (driver (obj_fields node_obj)) else None) in
         with_task reg host node_id False driver_name
           (\<lambda>task w1.
              case (if F_instance_uuid \<in> delta
                    then update_node_instance_check task node_id node_obj w1
                    else (Inr node_obj, w1)) of
                (Inl e, w2) \<Rightarrow> (Inl e, w2)
              | (Inr node_obj, w2) \<Rightarrow>
                  (case save node_obj w2 of (node_obj, w3) \<Rightarrow> (Inr node_obj, w3)))
           w))"

subsection \<open>change_node_power_state\<close>

text \<open>
  \<^verbatim>\<open>excutils.save_and_reraise_exception\<close> (not among the sources) runs its block
  and raises the exception again, so a handler ends in the exception it caught; a
  \<^verbatim>\<open>finally\<close> block runs at the end of either branch.
\<close>

definition power_failure :: "state \<Rightarrow> error \<Rightarrow> msg" where
  "power_failure new_state e =
     Format ''Failed to change power state to '%(target)s'. Error: %(error)s''
       [StateArg new_state, ExcArg e]"

definition change_node_power_state ::
  "registry \<Rightarrow> string \<Rightarrow> node_obj \<Rightarrow> state \<Rightarrow> world \<Rightarrow> (error + unit) \<times> world"
where
  "change_node_power_state reg host node_obj new_state w =
     (let node_id = obj_uuid node_obj in
      with_task reg host node_id False None
        (\<lambda>task w1.
           let node = task_node task;
               d = task_driver task in
           case (case call PowerValidate (power_validate d node) w1 of
                   (Inl e, w2) \<Rightarrow> (Inl e, w2)
                 | (Inr _, w2) \<Rightarrow> call GetPowerState (get_power_state d node) w2) of
             (Inl e, w3) \<Rightarrow>
               (let node = put_last_error (Some (power_failure new_state e)) node in
                case save node w3 of (node, w4) \<Rightarrow> (Inl e, w4))
           | (Inr curr_state, w3) \<Rightarrow>
               if curr_state = new_state then
                 (let node = put_last_error None node in
                  case save node w3 of (node, w4) \<Rightarrow> (Inr (), w4))
               else
                 (let node = put_target_power_state new_state node;
                      node = put_last_error None node in
                  case save node w3 of
                    (node, w4) \<Rightarrow>
                      (case call (SetPowerState new_state)
                              (set_power_state d node new_state) w4 of
                         (Inl e, w5) \<Rightarrow>
                           (let node = put_last_error (Some (power_failure new_state e)) node;
                                node = put_target_power_state NOSTATE node in
                            case save node w5 of (node, w6) \<Rightarrow> (Inl e, w6))
                       | (Inr _, w5) \<Rightarrow>
                           (let node = put_power_state new_state node;
                                node = put_target_power_state NOSTATE node in
                            case save node w5 of (node, w6) \<Rightarrow> (Inr (), w6)))))
        w)"

subsection \<open>Vendor passthru\<close>

text \<open>
  Both methods call the vendor method with \<^verbatim>\<open>method=driver_method, **info\<close>:
  when \<^verbatim>\<open>info\<close> has the key \<^verbatim>\<open>method\<close> itself, the call gives
  that keyword twice and Python raises \<^verbatim>\<open>TypeError\<close> before the driver is
  entered. \<^verbatim>\<open>getattr(task.driver, 'vendor', None)\<close> is false for a driver
  without the attribute and for one whose attribute is \<^verbatim>\<open>None\<close>.
\<close>

definition validate_vendor_action ::
  "registry \<Rightarrow> string \<Rightarrow> string \<Rightarrow> string \<Rightarrow> (string \<rightharpoonup> string) \<Rightarrow> world \<Rightarrow>
   (error + string) \<times> world"
where
  "validate_vendor_action reg host node_id driver_method info w =
     with_task reg host node_id True None
       (\<lambda>task w1.
          case vendor (task_driver task) of
            Vendor v \<Rightarrow>
              if ''method'' \<in> dom info then (Inl (TypeError ''method''), w1)
              else
                call (VendorValidate driver_method)
                  (vendor_validate v (task_node task) driver_method info) w1
          | _ \<Rightarrow>
              (Inl (UnsupportedDriverExtension
                     (driver (obj_fields (task_node task))) node_id ''vendor passthru''), w1))
       w"

text \<open>
  \<^verbatim>\<open>do_vendor_action\<close> reads \<^verbatim>\<open>task.driver.vendor.vendor_passthru\<close> with
  no test of the capability: on a driver without the attribute the access to
  \<^verbatim>\<open>vendor\<close> raises \<^verbatim>\<open>AttributeError\<close>, and on one whose attribute
  is \<^verbatim>\<open>None\<close> the access to \<^verbatim>\<open>vendor_passthru\<close> does.
\<close>

definition do_vendor_action ::
  "registry \<Rightarrow> string \<Rightarrow> string \<Rightarrow> string \<Rightarrow> (string \<rightharpoonup> string) \<Rightarrow> world \<Rightarrow>
   (error + unit) \<times> world"
where
  "do_vendor_action reg host node_id driver_method info w =
     with_task reg host node_id True None
       (\<lambda>task w1.
          case vendor (task_driver task) of
            VendorAbsent \<Rightarrow> (Inl (AttributeError ''vendor''), w1)
          | VendorNone \<Rightarrow> (Inl (AttributeError ''vendor_passthru''), w1)
          | Vendor v \<Rightarrow>
              if ''method'' \<in> dom info then (Inl (TypeError ''method''), w1)
              else
                call (VendorPassthru driver_method)
                  (vendor_passthru v (task_node task) driver_method info) w1)
       w"

subsection \<open>do_node_deploy and do_node_tear_down\<close>

definition do_node_deploy ::
  "registry \<Rightarrow> string \<Rightarrow> node_obj \<Rightarrow> world \<Rightarrow> (error + unit) \<times> world"
where
  "do_node_deploy reg host node_obj w =
     (let node_id = obj_uuid node_obj in
      with_task reg host node_id False None
        (\<lambda>task w1.
           let node = task_node task;
               d = task_driver task in
           if provision_state (obj_fields node) \<noteq> NOSTATE then
             (Inl (InstanceDeployFailure
                    (Format
                      ''RPC do_node_deploy called for %(node)s, but provision state is already %(state)s.''
                      [StrArg node_id, StateArg (provision_state (obj_fields node))])), w1)
           else
             (case call DeployValidate (deploy_validate d node) w1 of
                (Inl e, w2) \<Rightarrow>
                  (let node = put_last_error
                         (Some (Format ''Failed to validate deploy info. Error: %s'' [ExcArg e]))
                         node in
                   case save node w2 of (node, w3) \<Rightarrow> (Inl e, w3))
              | (Inr _, w2) \<Rightarrow>
                  (let node = put_provision_state DEPLOYING node;
                       node = put_target_provision_state DEPLOYDONE node;
                       node = put_last_error None node in
                   case save node w2 of
                     (node, w3) \<Rightarrow>
                       (case call Deploy (deploy d node) w3 of
                          (Inl e, w4) \<Rightarrow>
                            (let node = put_last_error
                                   (Some (Format ''Failed to deploy. Error: %s'' [ExcArg e])) node;
                                 node = put_provision_state ERROR node;
                                 node = put_target_provision_state NOSTATE node in
                             case save node w4 of (node, w5) \<Rightarrow> (Inl e, w5))
                        | (Inr new_state, w4) \<Rightarrow>
                            (let node =
                                   (if new_state = DEPLOYDONE then
                                      put_provision_state ACTIVE
                                        (put_target_provision_state NOSTATE node)
                                    else put_provision_state new_state node) in
                             case save node w4 of (node, w5) \<Rightarrow> (Inr (), w5))))))
        w)"

definition do_node_tear_down ::
  "registry \<Rightarrow> string \<Rightarrow> node_obj \<Rightarrow> world \<Rightarrow> (error + unit) \<times> world"
where
  "do_node_tear_down reg host node_obj w =
     (let node_id = obj_uuid node_obj in
      with_task reg host node_id False None
        (\<lambda>task w1.
           let node = task_node task;
               d = task_driver task in
           if provision_state (obj_fields node) \<notin> set [ACTIVE, DEPLOYFAIL, ERROR] then
             (Inl (InstanceDeployFailure
                    (Format
                      ''RCP do_node_tear_down not allowed for node %(node)s in state %(state)s''
                      [StrArg node_id, StateArg (provision_state (obj_fields node))])), w1)
           else
             (case call DeployValidate (deploy_validate d node) w1 of
                (Inl e, w2) \<Rightarrow>
                  (let node = put_last_error
                         (Some (Format ''Failed to validate info for teardown. Error: %s''
                                  [ExcArg e]))
                         node in
                   case save node w2 of (node, w3) \<Rightarrow> (Inl e, w3))
              | (Inr _, w2) \<Rightarrow>
                  (let node = put_provision_state DELETING node;
                       node = put_target_provision_state DELETED node;
                       node = put_last_error None node in
                   case save node w2 of
                     (node, w3) \<Rightarrow>
                       (case call TearDown (tear_down d node) w3 of
                          (Inl e, w4) \<Rightarrow>
                            (let node = put_last_error
                                   (Some (Format ''Failed to tear down. Error: %s'' [ExcArg e]))
                                   node;
                                 node = put_provision_state ERROR node;
                                 node = put_target_provision_state NOSTATE node in
                             case save node w4 of (node, w5) \<Rightarrow> (Inl e, w5))
                        | (Inr new_state, w4) \<Rightarrow>
                            (let node =
                                   (if new_state = DELETED then
                                      put_provision_state NOSTATE
                                        (put_target_provision_state NOSTATE node)
                                    else put_provision_state new_state node) in
                             case save node w4 of (node, w5) \<Rightarrow> (Inr (), w5))))))
        w)"

subsection \<open>Terms of the statements\<close>

text \<open>
  The node object an exclusive task on \<open>node_id\<close> holds once it has loaded \<open>row\<close> and
  reserved it for \<open>host\<close>: this is the node the manager hands to the driver.
\<close>

definition locked_node :: "string \<Rightarrow> string \<Rightarrow> node \<Rightarrow> node_obj" where
  "locked_node host node_id row =
     \<lparr>obj_uuid = node_id, obj_fields = row\<lparr>reservation := Some host\<rparr>, obj_changes = {}\<rparr>"

text \<open>
  The node object \<^verbatim>\<open>do_node_deploy\<close> hands to \<^verbatim>\<open>driver.deploy.deploy\<close>:
  the locked node after the in-progress pair has been set and saved.
\<close>

definition deploying_node :: "string \<Rightarrow> string \<Rightarrow> node \<Rightarrow> node_obj" where
  "deploying_node host node_id row =
     \<lparr>obj_uuid = node_id,
      obj_fields = row\<lparr>provision_state := DEPLOYING, target_provision_state := DEPLOYDONE,
                       last_error := None, reservation := Some host\<rparr>,
      obj_changes = {}\<rparr>"

text \<open>What a call that took the world from \<open>w\<close> to \<open>w'\<close> added to the trace.\<close>

definition events_since :: "world \<Rightarrow> world \<Rightarrow> event list" where
  "events_since w w' = drop (length (trace w)) (trace w')"

subsection \<open>Example inputs\<close>

text \<open>
  Inputs after the fixtures of \<^verbatim>\<open>tests/conductor/test_manager.py\<close>: a node
  with driver \<^verbatim>\<open>fake\<close> and every state unset, a database holding that one node,
  the node object a caller sends with no pending change, a driver whose methods all
  succeed (the power is reported off, a deployment completes at once, the vendor
  attribute is \<^verbatim>\<open>None\<close>), and a registry that loads one driver under the name \<^verbatim>\<open>fake\<close>.
\<close>

definition test_node :: node where
  "test_node =
     \<lparr>driver = ''fake'', driver_info = Map.empty, extra = Map.empty, instance_uuid = None,
      power_state = NOSTATE, target_power_state = NOSTATE, provision_state = NOSTATE,
      target_provision_state = NOSTATE, last_error = None, reservation = None\<rparr>"

definition example_world :: "node \<Rightarrow> world" where
  "example_world n = \<lparr>nodes = [''uuid1'' \<mapsto> n], trace = []\<rparr>"

definition rpc_node :: "node \<Rightarrow> node_obj" where
  "rpc_node n = \<lparr>obj_uuid = ''uuid1'', obj_fields = n, obj_changes = {}\<rparr>"

definition example_driver :: driver_bundle where
  "example_driver =
     \<lparr>power_validate = (\<lambda>n. Inr ()),
      get_power_state = (\<lambda>n. Inr POWER_OFF),
      set_power_state = (\<lambda>n s. Inr ()),
      deploy_validate = (\<lambda>n. Inr ()),
      deploy = (\<lambda>n. Inr DEPLOYDONE),
      tear_down = (\<lambda>n. Inr DELETED),
      vendor = VendorNone\<rparr>"

definition example_registry :: "driver_bundle \<Rightarrow> registry" where
  "example_registry d = [''fake'' \<mapsto> d]"

section \<open>Properties\<close>

subsection \<open>Running the model\<close>

lemma put_simps:
  "put_power_state v \<lparr>obj_uuid = u, obj_fields = f, obj_changes = c\<rparr> =
     \<lparr>obj_uuid = u, obj_fields = f\<lparr>power_state := v\<rparr>, obj_changes = insert F_power_state c\<rparr>"
  "put_target_power_state v \<lparr>obj_uuid = u, obj_fields = f, obj_changes = c\<rparr> =
     \<lparr>obj_uuid = u, obj_fields = f\<lparr>target_power_state := v\<rparr>,
      obj_changes = insert F_target_power_state c\<rparr>"
  "put_provision_state v \<lparr>obj_uuid = u, obj_fields = f, obj_changes = c\<rparr> =
     \<lparr>obj_uuid = u, obj_fields = f\<lparr>provision_state := v\<rparr>,
      obj_changes = insert F_provision_state c\<rparr>"
  "put_target_provision_state v \<lparr>obj_uuid = u, obj_fields = f, obj_changes = c\<rparr> =
     \<lparr>obj_uuid = u, obj_fields = f\<lparr>target_provision_state := v\<rparr>,
      obj_changes = insert F_target_provision_state c\<rparr>"
  "put_last_error e \<lparr>obj_uuid = u, obj_fields = f, obj_changes = c\<rparr> =
     \<lparr>obj_uuid = u, obj_fields = f\<lparr>last_error := e\<rparr>, obj_changes = insert F_last_error c\<rparr>"
  by (simp_all add: put_power_state_def put_target_power_state_def put_provision_state_def
      put_target_provision_state_def put_last_error_def)

lemma save_stored:
  "nodes w u = Some row \<Longrightarrow>
   save \<lparr>obj_uuid = u, obj_fields = f, obj_changes = c\<rparr> w =
     (\<lparr>obj_uuid = u, obj_fields = f, obj_changes = {}\<rparr>,
      w\<lparr>nodes := (nodes w)(u \<mapsto> update_columns c f row)\<rparr>)"
  by (simp add: save_def)

lemma release_held:
  "nodes w u = Some row \<Longrightarrow> reservation row = Some host \<Longrightarrow>
   release host u False w =
     w\<lparr>nodes := (nodes w)(u \<mapsto> row\<lparr>reservation := None\<rparr>), trace := trace w @ [Release u host]\<rparr>"
  by (simp add: release_def)

lemmas run_simps = with_task_def call_def put_simps save_stored release_held update_columns_def
  locked_node_def Let_def obj_what_changed_def

lemma acquire_exclusive:
  "nodes w u = Some row \<Longrightarrow> reservation row = None \<Longrightarrow>
   reg (case dn of Some n \<Rightarrow> n | None \<Rightarrow> driver row) = Some d \<Longrightarrow>
   acquire reg host u False dn w =
     (Inr \<lparr>task_node = locked_node host u row, task_driver = d\<rparr>,
      w\<lparr>nodes := (nodes w)(u \<mapsto> row\<lparr>reservation := Some host\<rparr>),
        trace := trace w @ [Reserve u host]\<rparr>)"
  by (simp add: acquire_def locked_node_def Let_def)

lemma acquire_Inr:
  assumes "acquire reg host u False dn w = (Inr t, w1)"
  shows "\<exists>row. nodes w u = Some row \<and> reservation row = None \<and>
           reg (case dn of Some n \<Rightarrow> n | None \<Rightarrow> driver row) = Some (task_driver t) \<and>
           w1 = w\<lparr>nodes := (nodes w)(u \<mapsto> row\<lparr>reservation := Some host\<rparr>),
                  trace := trace w @ [Reserve u host]\<rparr>"
  using assms
  by (auto simp add: acquire_def Let_def split: option.splits if_splits)

lemma acquire_Inl:
  "acquire reg host u sh dn w = (Inl e, w1) \<Longrightarrow> w1 = w"
  by (auto simp add: acquire_def Let_def split: option.splits if_splits)

lemma save_trace: "trace (snd (save obj w)) = trace w"
  by (simp add: save_def split: option.splits)

lemma release_events:
  "trace w2 = trace w @ evs \<Longrightarrow> set evs \<subseteq> set (events_since w (release host u sh w2))"
  by (auto simp add: release_def events_since_def split: option.splits)

lemma release_power_state:
  "map_option power_state (nodes (release host u sh w) u') = map_option power_state (nodes w u')"
  by (simp add: release_def split: option.splits)

lemma save_power_state:
  "map_option power_state (nodes (snd (save obj w)) (obj_uuid obj)) =
     (if F_power_state \<in> obj_changes obj
      then map_option (\<lambda>_. power_state (obj_fields obj)) (nodes w (obj_uuid obj))
      else map_option power_state (nodes w (obj_uuid obj)))"
  by (simp add: save_def update_columns_def split: option.splits)

lemma instance_check_eq:
  "update_node_instance_check t u obj w =
     (case power_validate (task_driver t) obj of
        Inl e \<Rightarrow> (Inl e, w\<lparr>trace := trace w @ [PowerValidate]\<rparr>)
      | Inr _ \<Rightarrow>
          (case get_power_state (task_driver t) obj of
             Inl e \<Rightarrow> (Inl e, w\<lparr>trace := trace w @ [PowerValidate, GetPowerState]\<rparr>)
           | Inr live \<Rightarrow>
               (if live \<noteq> POWER_OFF then Inl (NodeInWrongPowerState u live)
                else Inr (put_power_state live obj),
                w\<lparr>trace := trace w @ [PowerValidate, GetPowerState]\<rparr>)))"
  by (simp add: update_node_instance_check_def call_def put_power_state_def Let_def
      split: sum.splits)

lemma instance_check_Inr:
  assumes "update_node_instance_check t u obj w = (Inr obj', w')"
  shows "nodes w' = nodes w \<and> obj_uuid obj' = obj_uuid obj \<and>
         power_state (obj_fields obj') = POWER_OFF \<and> F_power_state \<in> obj_changes obj' \<and>
         get_power_state (task_driver t) obj = Inr POWER_OFF"
  using assms
  by (auto simp add: instance_check_eq put_power_state_def split: sum.splits if_splits)

lemmas example_defs = example_registry_def example_driver_def example_world_def rpc_node_def
  test_node_def

subsection \<open>update_node and the stored power state\<close>

text \<open>
  Claim C1 as stated (\<^verbatim>\<open>update_node\<close> leaves the stored
  \<^verbatim>\<open>power_state\<close> unchanged on every successful return, the
  \<^verbatim>\<open>instance_uuid\<close> branch included) fails. The node of
  \<^verbatim>\<open>test_associate_node_valid_state\<close> is stored with
  \<^verbatim>\<open>power_state = NOSTATE\<close>; the caller changes only
  \<^verbatim>\<open>instance_uuid\<close>; the driver reports \<^verbatim>\<open>POWER_OFF\<close>. The call
  returns the node, and the stored \<^verbatim>\<open>power_state\<close> is now
  \<^verbatim>\<open>POWER_OFF\<close>: the assignment
  \<^verbatim>\<open>node_obj['power_state'] = ...get_power_state(...)\<close> marks the field as
  changed and \<^verbatim>\<open>node_obj.save\<close> writes it.
\<close>

theorem update_node_persists_probed_power_state:
  "update_node (example_registry example_driver) ''test-host''
     ((rpc_node (test_node\<lparr>instance_uuid := Some ''fake-uuid''\<rparr>))
        \<lparr>obj_changes := {F_instance_uuid}\<rparr>)
     (example_world test_node) =
   (Inr (rpc_node (test_node\<lparr>instance_uuid := Some ''fake-uuid'', power_state := POWER_OFF\<rparr>)),
    \<lparr>nodes = [''uuid1'' \<mapsto>
        test_node\<lparr>instance_uuid := Some ''fake-uuid'', power_state := POWER_OFF\<rparr>],
     trace = [Reserve ''uuid1'' ''test-host'', PowerValidate, GetPowerState,
              Release ''uuid1'' ''test-host'']\<rparr>) \<and>
   power_state test_node = NOSTATE"
  by (simp add: update_node_def instance_check_eq acquire_def run_simps example_registry_def
      example_driver_def example_world_def rpc_node_def test_node_def put_power_state_def)

text \<open>
  Claim C1, amended. \<^verbatim>\<open>update_node\<close> never stores a
  \<^verbatim>\<open>power_state\<close> that the caller supplied: a call that returns had no
  \<^verbatim>\<open>power_state\<close> in its delta, and after it the stored
  \<^verbatim>\<open>power_state\<close> is what it was before when \<^verbatim>\<open>instance_uuid\<close> is
  not in the delta, and is \<^verbatim>\<open>POWER_OFF\<close>, the state the task's driver has
  just reported for the node, when \<^verbatim>\<open>instance_uuid\<close> is in the delta.
\<close>

theorem update_node_stored_power_state:
  assumes ok: "update_node reg host node_obj w = (Inr res, w')"
  shows "F_power_state \<notin> obj_what_changed node_obj \<and>
     map_option power_state (nodes w' (obj_uuid node_obj)) =
       (if F_instance_uuid \<in> obj_what_changed node_obj then Some POWER_OFF
        else map_option power_state (nodes w (obj_uuid node_obj))) \<and>
     (F_instance_uuid \<in> obj_what_changed node_obj \<longrightarrow>
        (\<exists>row d. nodes w (obj_uuid node_obj) = Some row \<and>
           reg (if F_driver \<in> obj_what_changed node_obj then driver (obj_fields node_obj)
                else driver row) = Some d \<and>
           get_power_state d node_obj = Inr POWER_OFF))"
proof -
  let ?u = "obj_uuid node_obj"
  let ?dn = "if F_driver \<in> obj_changes node_obj then Some (driver (obj_fields node_obj)) else None"
  have delta: "F_power_state \<notin> obj_changes node_obj"
    using ok by (auto simp add: update_node_def obj_what_changed_def Let_def)
  obtain r1 w1 where acq: "acquire reg host ?u False ?dn w = (r1, w1)"
    by (cases "acquire reg host ?u False ?dn w")
  from ok delta acq obtain t where t: "r1 = Inr t"
    by (cases r1) (auto simp add: update_node_def with_task_def obj_what_changed_def Let_def)
  from acquire_Inr [OF acq [unfolded t]] obtain row where
    row: "nodes w ?u = Some row" and
    drv: "reg (case ?dn of Some n \<Rightarrow> n | None \<Rightarrow> driver row) = Some (task_driver t)" and
    w1: "w1 = w\<lparr>nodes := (nodes w)(?u \<mapsto> row\<lparr>reservation := Some host\<rparr>),
                  trace := trace w @ [Reserve ?u host]\<rparr>"
    by blast
  have stored1: "map_option power_state (nodes w1 ?u) = Some (power_state row)"
    by (simp add: w1)
  show ?thesis
  proof (cases "F_instance_uuid \<in> obj_changes node_obj")
    case False
    with ok delta acq t have "w' = release host ?u False (snd (save node_obj w1))"
      by (auto simp add: update_node_def with_task_def obj_what_changed_def Let_def
          split: prod.splits)
    then show ?thesis
      using delta row stored1 False
      by (simp add: release_power_state save_power_state obj_what_changed_def)
  next
    case True
    obtain r2 w2 where chk: "update_node_instance_check t ?u node_obj w1 = (r2, w2)"
      by (cases "update_node_instance_check t ?u node_obj w1")
    from ok delta acq t True chk obtain obj' where obj': "r2 = Inr obj'"
      by (cases r2) (auto simp add: update_node_def with_task_def obj_what_changed_def Let_def)
    from ok delta acq t True chk obj'
    have w': "w' = release host ?u False (snd (save obj' w2))"
      by (auto simp add: update_node_def with_task_def obj_what_changed_def Let_def
          split: prod.splits)
    from instance_check_Inr [OF chk [unfolded obj']]
    have facts: "nodes w2 = nodes w1" "obj_uuid obj' = ?u"
      "power_state (obj_fields obj') = POWER_OFF" "F_power_state \<in> obj_changes obj'"
      and probe: "get_power_state (task_driver t) node_obj = Inr POWER_OFF"
      by simp_all
    have stored: "map_option power_state (nodes (snd (save obj' w2)) ?u) = Some POWER_OFF"
      using save_power_state [of obj' w2] facts stored1 by auto
    have "reg (if F_driver \<in> obj_changes node_obj then driver (obj_fields node_obj)
               else driver row) = Some (task_driver t)"
      using drv by (simp split: if_splits)
    with probe row have "\<exists>row d. nodes w ?u = Some row \<and>
        reg (if F_driver \<in> obj_changes node_obj then driver (obj_fields node_obj)
             else driver row) = Some d \<and>
        get_power_state d node_obj = Inr POWER_OFF"
      by blast
    with stored show ?thesis
      using delta True w'
      by (simp add: release_power_state obj_what_changed_def)
  qed
qed

text \<open>
  The amended C1 at a node stored as \<^verbatim>\<open>POWER_ON\<close> that has since been
  switched off: the caller sets \<^verbatim>\<open>instance_uuid\<close>, its copy of the node
  still says \<^verbatim>\<open>POWER_ON\<close>, the driver reports \<^verbatim>\<open>POWER_OFF\<close>,
  and \<^verbatim>\<open>POWER_OFF\<close> is what is stored.
\<close>

theorem update_node_stored_power_state_witness:
  "update_node (example_registry example_driver) ''test-host''
     ((rpc_node (test_node\<lparr>instance_uuid := Some ''fake-uuid'', power_state := POWER_ON\<rparr>))
        \<lparr>obj_changes := {F_instance_uuid}\<rparr>)
     (example_world (test_node\<lparr>power_state := POWER_ON\<rparr>)) =
   (Inr (rpc_node (test_node\<lparr>instance_uuid := Some ''fake-uuid'', power_state := POWER_OFF\<rparr>)),
    \<lparr>nodes = [''uuid1'' \<mapsto>
        test_node\<lparr>instance_uuid := Some ''fake-uuid'', power_state := POWER_OFF\<rparr>],
     trace = [Reserve ''uuid1'' ''test-host'', PowerValidate, GetPowerState,
              Release ''uuid1'' ''test-host'']\<rparr>) \<and>
   F_instance_uuid \<in>
     obj_what_changed
       ((rpc_node (test_node\<lparr>instance_uuid := Some ''fake-uuid'', power_state := POWER_ON\<rparr>))
          \<lparr>obj_changes := {F_instance_uuid}\<rparr>) \<and>
   map_option power_state
     (nodes \<lparr>nodes = [''uuid1'' \<mapsto>
               test_node\<lparr>instance_uuid := Some ''fake-uuid'', power_state := POWER_OFF\<rparr>],
             trace = [Reserve ''uuid1'' ''test-host'', PowerValidate, GetPowerState,
                      Release ''uuid1'' ''test-host'']\<rparr>
        ''uuid1'') = Some POWER_OFF"
  (is "?run \<and> ?delta \<and> ?stored")
proof -
  have run: ?run
    by (simp add: update_node_def instance_check_eq acquire_def run_simps example_defs
        put_power_state_def)
  have delta: ?delta by (simp add: obj_what_changed_def)
  from update_node_stored_power_state [OF run] delta have ?stored
    by (simp add: rpc_node_def)
  with run delta show ?thesis by simp
qed

subsection \<open>The target power state after a power change\<close>

text \<open>
  Claim C2 (after every successful \<^verbatim>\<open>change_node_power_state\<close>, the
  short-circuit path included, \<^verbatim>\<open>target_power_state\<close> is
  \<^verbatim>\<open>NOSTATE\<close> and persisted) at a node that an earlier power-off left with
  \<^verbatim>\<open>target_power_state = POWER_OFF\<close>, as in
  \<^verbatim>\<open>test_change_node_power_state_already_being_processed\<close>, when the
  machine is in fact off and power-off is requested again. The call takes the short
  circuit and returns; the stored row is what it was, with
  \<^verbatim>\<open>target_power_state\<close> still \<^verbatim>\<open>POWER_OFF\<close>. The path through
  \<^verbatim>\<open>set_power_state\<close> clears the target in its \<^verbatim>\<open>finally\<close>
  block; the early return does not.
\<close>

theorem change_node_power_state_short_circuit_keeps_stale_target:
  "change_node_power_state (example_registry example_driver) ''test-host''
     (rpc_node (test_node\<lparr>power_state := POWER_ON, target_power_state := POWER_OFF\<rparr>))
     POWER_OFF
     (example_world (test_node\<lparr>power_state := POWER_ON, target_power_state := POWER_OFF\<rparr>)) =
   (Inr (),
    \<lparr>nodes = [''uuid1'' \<mapsto> test_node\<lparr>power_state := POWER_ON, target_power_state := POWER_OFF\<rparr>],
     trace = [Reserve ''uuid1'' ''test-host'', PowerValidate, GetPowerState,
              Release ''uuid1'' ''test-host'']\<rparr>)"
  by (simp add: change_node_power_state_def acquire_def run_simps example_registry_def
      example_driver_def example_world_def rpc_node_def test_node_def)

text \<open>
  On the other path, where the live state differs from the requested one and
  \<^verbatim>\<open>set_power_state\<close> is called, the stored target is
  \<^verbatim>\<open>NOSTATE\<close> afterwards, whether the driver raised or not.
\<close>

lemma change_node_power_state_clears_target:
  assumes "nodes w (obj_uuid node_obj) = Some row" "reservation row = None"
    "reg (driver row) = Some d"
    "power_validate d (locked_node host (obj_uuid node_obj) row) = Inr ()"
    "get_power_state d (locked_node host (obj_uuid node_obj) row) = Inr curr_state"
    "curr_state \<noteq> new_state"
  shows "map_option target_power_state
           (nodes (snd (change_node_power_state reg host node_obj new_state w))
              (obj_uuid node_obj)) = Some NOSTATE"
  using assms
  by (cases row)
     (simp add: change_node_power_state_def acquire_exclusive [where dn = None, simplified]
        run_simps split: sum.splits)

subsection \<open>A power change that fails\<close>

text \<open>
  After a driver failure inside the task, the stored \<^verbatim>\<open>power_state\<close> is the
  one at entry and the stored \<^verbatim>\<open>last_error\<close> is the failure message.
\<close>

lemma driver_failure_stored:
  assumes "nodes w (obj_uuid node_obj) = Some row" "reservation row = None"
    "reg (driver row) = Some d"
    "change_node_power_state reg host node_obj new_state w = (Inl e, w')"
  shows "map_option power_state (nodes w' (obj_uuid node_obj)) = Some (power_state row) \<and>
     map_option last_error (nodes w' (obj_uuid node_obj)) = Some (Some (power_failure new_state e))"
  using assms
  by (cases row)
     (auto simp add: change_node_power_state_def acquire_exclusive [where dn = None, simplified]
        run_simps split: if_splits sum.splits)

text \<open>
  Claim C3 as stated (after every call of \<^verbatim>\<open>change_node_power_state\<close> that
  raises, \<^verbatim>\<open>power_state\<close> is unchanged and \<^verbatim>\<open>last_error\<close> is
  non-null) fails in its second half. In
  \<^verbatim>\<open>test_change_node_power_state_already_locked\<close> another host holds the
  node: the call raises \<^verbatim>\<open>NodeLocked\<close> and writes nothing, so the stored
  \<^verbatim>\<open>last_error\<close> is still null, as that test asserts.
\<close>

theorem change_node_power_state_locked_no_last_error:
  "change_node_power_state (example_registry example_driver) ''test-host''
     (rpc_node (test_node\<lparr>power_state := POWER_ON\<rparr>)) POWER_ON
     (example_world (test_node\<lparr>power_state := POWER_ON, reservation := Some ''other-host''\<rparr>)) =
   (Inl (NodeLocked ''uuid1'' ''other-host''),
    example_world (test_node\<lparr>power_state := POWER_ON, reservation := Some ''other-host''\<rparr>)) \<and>
   map_option last_error
     (nodes (example_world (test_node\<lparr>power_state := POWER_ON,
                                         reservation := Some ''other-host''\<rparr>)) ''uuid1'') =
   Some None"
  by (simp add: change_node_power_state_def acquire_def run_simps example_registry_def
      example_driver_def example_world_def rpc_node_def test_node_def)

text \<open>
  Claim C3, amended. For every call of \<^verbatim>\<open>change_node_power_state\<close> that
  raises, the stored \<^verbatim>\<open>power_state\<close> is unchanged from its value at entry;
  and when the call had acquired its exclusive task (the node is stored, nobody holds it,
  its driver is loaded), so that it is the driver that raised, the stored
  \<^verbatim>\<open>last_error\<close> is non-null after the call: it is the failure message built
  from the requested state and the exception that is raised.
\<close>

theorem change_node_power_state_failure_records_error:
  assumes fails: "change_node_power_state reg host node_obj new_state w = (Inl e, w')"
  shows "map_option power_state (nodes w' (obj_uuid node_obj)) =
       map_option power_state (nodes w (obj_uuid node_obj)) \<and>
     (nodes w (obj_uuid node_obj) = Some row \<and> reservation row = None \<and>
      reg (driver row) = Some d \<longrightarrow>
        map_option last_error (nodes w' (obj_uuid node_obj)) =
          Some (Some (power_failure new_state e)))"
proof -
  let ?u = "obj_uuid node_obj"
  obtain r1 w1 where acq: "acquire reg host ?u False None w = (r1, w1)"
    by (cases "acquire reg host ?u False None w")
  have unchanged: "map_option power_state (nodes w' ?u) = map_option power_state (nodes w ?u)"
  proof (cases r1)
    case (Inl e1)
    with acq have "w1 = w" by (simp add: acquire_Inl)
    with fails acq Inl have "w' = w"
      by (simp add: change_node_power_state_def with_task_def Let_def)
    then show ?thesis by simp
  next
    case (Inr t)
    from acquire_Inr [OF acq [unfolded Inr]] obtain row1 where
      "nodes w ?u = Some row1" "reservation row1 = None"
      "reg (driver row1) = Some (task_driver t)"
      by auto
    from driver_failure_stored [OF this fails] this(1) show ?thesis by simp
  qed
  moreover have "map_option last_error (nodes w' ?u) = Some (Some (power_failure new_state e))"
    if "nodes w ?u = Some row \<and> reservation row = None \<and> reg (driver row) = Some d"
    using that fails driver_failure_stored [of w node_obj row reg d host new_state e w']
    by blast
  ultimately show ?thesis by blast
qed

text \<open>
  The amended C3 at \<^verbatim>\<open>test_change_node_power_state_set_power_failure\<close>:
  the machine is off, power-on is requested, \<^verbatim>\<open>set_power_state\<close> raises.
\<close>

theorem change_node_power_state_failure_records_error_witness:
  "change_node_power_state
     (example_registry
       (example_driver\<lparr>set_power_state := \<lambda>n s. Inl (IronicException (Text ''''))\<rparr>))
     ''test-host'' (rpc_node (test_node\<lparr>power_state := POWER_OFF\<rparr>)) POWER_ON
     (example_world (test_node\<lparr>power_state := POWER_OFF\<rparr>)) =
   (Inl (IronicException (Text '''')),
    \<lparr>nodes = [''uuid1'' \<mapsto>
        test_node\<lparr>power_state := POWER_OFF,
                  last_error := Some (power_failure POWER_ON (IronicException (Text '''')))\<rparr>],
     trace = [Reserve ''uuid1'' ''test-host'', PowerValidate, GetPowerState,
              SetPowerState POWER_ON, Release ''uuid1'' ''test-host'']\<rparr>) \<and>
   (nodes (example_world (test_node\<lparr>power_state := POWER_OFF\<rparr>))
      (obj_uuid (rpc_node (test_node\<lparr>power_state := POWER_OFF\<rparr>))) =
      Some (test_node\<lparr>power_state := POWER_OFF\<rparr>) \<and>
    reservation (test_node\<lparr>power_state := POWER_OFF\<rparr>) = None \<and>
    example_registry
      (example_driver\<lparr>set_power_state := \<lambda>n s. Inl (IronicException (Text ''''))\<rparr>)
      (driver (test_node\<lparr>power_state := POWER_OFF\<rparr>)) =
      Some (example_driver\<lparr>set_power_state := \<lambda>n s. Inl (IronicException (Text ''''))\<rparr>)) \<and>
   map_option power_state
     (nodes \<lparr>nodes = [''uuid1'' \<mapsto>
               test_node\<lparr>power_state := POWER_OFF,
                 last_error := Some (power_failure POWER_ON (IronicException (Text '''')))\<rparr>],
             trace = [Reserve ''uuid1'' ''test-host'', PowerValidate, GetPowerState,
                      SetPowerState POWER_ON, Release ''uuid1'' ''test-host'']\<rparr>
        (obj_uuid (rpc_node (test_node\<lparr>power_state := POWER_OFF\<rparr>)))) =
     map_option power_state
       (nodes (example_world (test_node\<lparr>power_state := POWER_OFF\<rparr>))
          (obj_uuid (rpc_node (test_node\<lparr>power_state := POWER_OFF\<rparr>)))) \<and>
   map_option last_error
     (nodes \<lparr>nodes = [''uuid1'' \<mapsto>
               test_node\<lparr>power_state := POWER_OFF,
                 last_error := Some (power_failure POWER_ON (IronicException (Text '''')))\<rparr>],
             trace = [Reserve ''uuid1'' ''test-host'', PowerValidate, GetPowerState,
                      SetPowerState POWER_ON, Release ''uuid1'' ''test-host'']\<rparr>
        (obj_uuid (rpc_node (test_node\<lparr>power_state := POWER_OFF\<rparr>)))) =
     Some (Some (power_failure POWER_ON (IronicException (Text ''''))))"
  (is "?fails \<and> ?acquired \<and> ?c1 \<and> ?c2")
proof -
  have fails: ?fails
    by (simp add: change_node_power_state_def acquire_def run_simps example_defs)
  have acquired: ?acquired by (simp add: example_defs)
  from change_node_power_state_failure_records_error [OF fails,
      where row = "test_node\<lparr>power_state := POWER_OFF\<rparr>"
        and d = "example_driver\<lparr>set_power_state := \<lambda>n s. Inl (IronicException (Text ''''))\<rparr>"]
    acquired
  have "?c1 \<and> ?c2" by blast
  with fails acquired show ?thesis by blast
qed

subsection \<open>The power is already as requested\<close>

text \<open>
  Claim C4. When the task is acquired, \<^verbatim>\<open>power.validate\<close> returns and the
  live \<^verbatim>\<open>get_power_state\<close> equals \<^verbatim>\<open>new_state\<close>,
  \<^verbatim>\<open>change_node_power_state\<close> returns normally; between reserving and
  releasing the node it has called the driver's \<^verbatim>\<open>validate\<close> and
  \<^verbatim>\<open>get_power_state\<close> and nothing else, so not
  \<^verbatim>\<open>set_power_state\<close>; and the stored row is the row at entry with
  \<^verbatim>\<open>last_error\<close> null.
\<close>

theorem change_node_power_state_same_state:
  assumes "nodes w (obj_uuid node_obj) = Some row" "reservation row = None"
    "reg (driver row) = Some d"
    "power_validate d (locked_node host (obj_uuid node_obj) row) = Inr ()"
    "get_power_state d (locked_node host (obj_uuid node_obj) row) = Inr new_state"
  shows "change_node_power_state reg host node_obj new_state w =
    (Inr (),
     w\<lparr>nodes := (nodes w)(obj_uuid node_obj \<mapsto> row\<lparr>last_error := None\<rparr>),
       trace := trace w @ [Reserve (obj_uuid node_obj) host, PowerValidate, GetPowerState,
                           Release (obj_uuid node_obj) host]\<rparr>)"
  using assms
  by (cases row)
     (simp add: change_node_power_state_def acquire_exclusive [where dn = None, simplified]
        run_simps)

text \<open>
  C4 at \<^verbatim>\<open>test_change_node_power_state_in_same_state\<close>: the machine is on,
  power-on is requested, and \<^verbatim>\<open>set_power_state\<close> would raise if called.
\<close>

theorem change_node_power_state_same_state_witness:
  "nodes (example_world (test_node\<lparr>power_state := POWER_ON, last_error := Some (Text ''anything but None'')\<rparr>))
     (obj_uuid (rpc_node test_node)) =
     Some (test_node\<lparr>power_state := POWER_ON, last_error := Some (Text ''anything but None'')\<rparr>) \<and>
   change_node_power_state
     (example_registry
        (example_driver\<lparr>get_power_state := \<lambda>n. Inr POWER_ON,
                         set_power_state := \<lambda>n s. Inl (IronicException (Text ''''))\<rparr>))
     ''test-host'' (rpc_node test_node) POWER_ON
     (example_world (test_node\<lparr>power_state := POWER_ON, last_error := Some (Text ''anything but None'')\<rparr>)) =
   (Inr (),
    \<lparr>nodes = [''uuid1'' \<mapsto> test_node\<lparr>power_state := POWER_ON\<rparr>],
     trace = [Reserve ''uuid1'' ''test-host'', PowerValidate, GetPowerState,
              Release ''uuid1'' ''test-host'']\<rparr>)"
  (is "?h1 \<and> ?c")
proof -
  let ?row = "test_node\<lparr>power_state := POWER_ON, last_error := Some (Text ''anything but None'')\<rparr>"
  let ?d = "example_driver\<lparr>get_power_state := \<lambda>n. Inr POWER_ON,
                         set_power_state := \<lambda>n s. Inl (IronicException (Text ''''))\<rparr>"
  have h1: ?h1 by (simp add: example_defs)
  have h2: "reservation ?row = None" by (simp add: test_node_def)
  have h3: "example_registry ?d (driver ?row) = Some ?d" by (simp add: example_defs)
  have h4: "power_validate ?d (locked_node ''test-host'' (obj_uuid (rpc_node test_node)) ?row) = Inr ()"
    by (simp add: example_defs)
  have h5: "get_power_state ?d (locked_node ''test-host'' (obj_uuid (rpc_node test_node)) ?row) = Inr POWER_ON"
    by (simp add: example_defs)
  from change_node_power_state_same_state
    [where reg = "example_registry ?d" and d = "?d" and row = "?row", OF h1 h2 h3 h4 h5]
  have ?c by (simp add: example_defs)
  with h1 show ?thesis by simp
qed

subsection \<open>What do_node_deploy stores\<close>

text \<open>
  Claim C5. When \<^verbatim>\<open>do_node_deploy\<close> reaches the driver's
  \<^verbatim>\<open>deploy\<close> (the task is acquired on a node in
  \<^verbatim>\<open>NOSTATE\<close> and \<^verbatim>\<open>deploy.validate\<close> returns) and the driver
  returns a state: if that state is \<^verbatim>\<open>DEPLOYDONE\<close> the stored node has
  \<^verbatim>\<open>provision_state = ACTIVE\<close>,
  \<^verbatim>\<open>target_provision_state = NOSTATE\<close> and a null
  \<^verbatim>\<open>last_error\<close>; otherwise \<^verbatim>\<open>provision_state\<close> is the returned
  state as it is and \<^verbatim>\<open>target_provision_state\<close> stays
  \<^verbatim>\<open>DEPLOYDONE\<close>.
\<close>

theorem do_node_deploy_driver_state:
  assumes "nodes w (obj_uuid node_obj) = Some row" "reservation row = None"
    "reg (driver row) = Some d" "provision_state row = NOSTATE"
    "deploy_validate d (locked_node host (obj_uuid node_obj) row) = Inr ()"
    "deploy d (deploying_node host (obj_uuid node_obj) row) = Inr new_state"
  shows "do_node_deploy reg host node_obj w =
    (Inr (),
     w\<lparr>nodes := (nodes w)(obj_uuid node_obj \<mapsto>
          (if new_state = DEPLOYDONE
           then row\<lparr>provision_state := ACTIVE, target_provision_state := NOSTATE,
                    last_error := None\<rparr>
           else row\<lparr>provision_state := new_state, target_provision_state := DEPLOYDONE,
                    last_error := None\<rparr>)),
       trace := trace w @ [Reserve (obj_uuid node_obj) host, DeployValidate, Deploy,
                           Release (obj_uuid node_obj) host]\<rparr>)"
  using assms
  by (cases row)
     (simp add: do_node_deploy_def acquire_exclusive [where dn = None, simplified] run_simps
        deploying_node_def)

text \<open>
  C5 at \<^verbatim>\<open>test_do_node_deploy_partial_ok\<close>: the driver returns
  \<^verbatim>\<open>DEPLOYING\<close>.
\<close>

theorem do_node_deploy_driver_state_witness:
  "provision_state test_node = NOSTATE \<and>
   deploy (example_driver\<lparr>deploy := \<lambda>n. Inr DEPLOYING\<rparr>)
     (deploying_node ''test-host'' (obj_uuid (rpc_node test_node)) test_node) = Inr DEPLOYING \<and>
   do_node_deploy (example_registry (example_driver\<lparr>deploy := \<lambda>n. Inr DEPLOYING\<rparr>))
     ''test-host'' (rpc_node test_node) (example_world test_node) =
   (Inr (),
    \<lparr>nodes = [''uuid1'' \<mapsto>
        test_node\<lparr>provision_state := DEPLOYING, target_provision_state := DEPLOYDONE\<rparr>],
     trace = [Reserve ''uuid1'' ''test-host'', DeployValidate, Deploy,
              Release ''uuid1'' ''test-host'']\<rparr>)"
  (is "?h4 \<and> ?h6 \<and> ?c")
proof -
  let ?d = "example_driver\<lparr>deploy := \<lambda>n. Inr DEPLOYING\<rparr>"
  have h1: "nodes (example_world test_node) (obj_uuid (rpc_node test_node)) = Some test_node"
    by (simp add: example_defs)
  have h2: "reservation test_node = None" by (simp add: test_node_def)
  have h3: "example_registry ?d (driver test_node) = Some ?d" by (simp add: example_defs)
  have h4: ?h4 by (simp add: test_node_def)
  have h5: "deploy_validate ?d
      (locked_node ''test-host'' (obj_uuid (rpc_node test_node)) test_node) = Inr ()"
    by (simp add: example_defs)
  have h6: ?h6 by simp
  from do_node_deploy_driver_state
    [where reg = "example_registry ?d" and d = "?d" and row = test_node, OF h1 h2 h3 h4 h5 h6]
  have ?c by (simp add: example_defs)
  with h4 h6 show ?thesis by simp
qed

subsection \<open>The provision state that a deployment or a tear-down requires\<close>




subsection \<open>A driver without the vendor capability\<close>

text \<open>
  Claim C7 (on a driver without the vendor capability both
  \<^verbatim>\<open>validate_vendor_action\<close> and \<^verbatim>\<open>do_vendor_action\<close> fail with
  \<^verbatim>\<open>UnsupportedDriverExtension\<close>) at the node and driver of
  \<^verbatim>\<open>test_validate_vendor_action_unsupported\<close>:
  \<^verbatim>\<open>validate_vendor_action\<close> raises
  \<^verbatim>\<open>UnsupportedDriverExtension(driver, node, extension)\<close>, while
  \<^verbatim>\<open>do_vendor_action\<close>, which has no such test of the capability, raises
  \<^verbatim>\<open>AttributeError\<close>.
\<close>

theorem vendor_actions_without_vendor_capability:
  "validate_vendor_action (example_registry example_driver) ''test-host'' ''uuid1'' ''foo''
     [''bar'' \<mapsto> ''baz''] (example_world test_node) =
   (Inl (UnsupportedDriverExtension ''fake'' ''uuid1'' ''vendor passthru''),
    example_world test_node) \<and>
   do_vendor_action (example_registry example_driver) ''test-host'' ''uuid1'' ''foo''
     [''bar'' \<mapsto> ''baz''] (example_world test_node) =
   (Inl (AttributeError ''vendor_passthru''), example_world test_node)"
  by (simp add: validate_vendor_action_def do_vendor_action_def with_task_def acquire_def
      release_def example_defs Let_def)

text \<open>
  The same on every node whose loaded driver has no vendor capability: the two methods
  differ in the exception they raise, and neither changes the world.
\<close>

lemma validate_vendor_action_unsupported:
  assumes "nodes w node_id = Some row" "reg (driver row) = Some d"
    "vendor d = VendorNone \<or> vendor d = VendorAbsent"
  shows "validate_vendor_action reg host node_id driver_method info w =
    (Inl (UnsupportedDriverExtension (driver row) node_id ''vendor passthru''), w)"
  using assms
  by (auto simp add: validate_vendor_action_def with_task_def acquire_def release_def Let_def)

lemma do_vendor_action_unsupported:
  assumes "nodes w node_id = Some row" "reg (driver row) = Some d"
    "vendor d = VendorNone \<or> vendor d = VendorAbsent"
  shows "do_vendor_action reg host node_id driver_method info w =
    (Inl (AttributeError (if vendor d = VendorNone then ''vendor_passthru'' else ''vendor'')),
     w)"
  using assms
  by (auto simp add: do_vendor_action_def with_task_def acquire_def release_def Let_def)

subsection \<open>Associating an instance\<close>

text \<open>
  Claim C8 as stated (for every call whose delta contains \<^verbatim>\<open>instance_uuid\<close>
  the driver's \<^verbatim>\<open>power.validate\<close> is called, and a live state other than
  \<^verbatim>\<open>POWER_OFF\<close> makes the call fail with
  \<^verbatim>\<open>NodeInWrongPowerState\<close>) fails when the delta contains
  \<^verbatim>\<open>power_state\<close> as well: the machine is on, yet the call raises
  \<^verbatim>\<open>IronicException\<close> before any task is acquired, and no driver method is
  called.
\<close>

theorem update_node_power_state_delta_skips_validate:
  "F_instance_uuid \<in>
     obj_what_changed ((rpc_node (test_node\<lparr>instance_uuid := Some ''fake-uuid'', power_state := POWER_OFF\<rparr>))
        \<lparr>obj_changes := {F_instance_uuid, F_power_state}\<rparr>) \<and>
   update_node (example_registry (example_driver\<lparr>get_power_state := \<lambda>n. Inr POWER_ON\<rparr>))
     ''test-host''
     ((rpc_node (test_node\<lparr>instance_uuid := Some ''fake-uuid'', power_state := POWER_OFF\<rparr>))
        \<lparr>obj_changes := {F_instance_uuid, F_power_state}\<rparr>)
     (example_world (test_node\<lparr>power_state := POWER_ON\<rparr>)) =
   (Inl (IronicException
          (Text ''Invalid method call: update_node can not change node state.'')),
    \<lparr>nodes = [''uuid1'' \<mapsto> test_node\<lparr>power_state := POWER_ON\<rparr>], trace = []\<rparr>)"
  by (simp add: update_node_def obj_what_changed_def example_defs)

text \<open>
  Claim C8, amended. For every call of \<^verbatim>\<open>update_node\<close> whose delta
  contains \<^verbatim>\<open>instance_uuid\<close> and not \<^verbatim>\<open>power_state\<close>, once the
  exclusive task is acquired (the node is stored, nobody holds it, and the driver, the
  new one if the delta names one, is loaded): \<^verbatim>\<open>power.validate\<close> is called;
  when it returns, \<^verbatim>\<open>get_power_state\<close> is probed; and when the probe returns
  a state other than \<^verbatim>\<open>POWER_OFF\<close> the call fails with
  \<^verbatim>\<open>NodeInWrongPowerState(node, observed state)\<close> and the node table is what
  it was.
\<close>

theorem update_node_instance_uuid_checks_power:
  assumes delta: "F_instance_uuid \<in> obj_what_changed node_obj"
    "F_power_state \<notin> obj_what_changed node_obj"
    and row: "nodes w (obj_uuid node_obj) = Some row" "reservation row = None"
    and drv: "reg (if F_driver \<in> obj_what_changed node_obj then driver (obj_fields node_obj)
          else driver row) = Some d"
    and run: "update_node reg host node_obj w = (result, w')"
  shows "PowerValidate \<in> set (events_since w w') \<and>
     (power_validate d node_obj = Inr () \<longrightarrow> GetPowerState \<in> set (events_since w w')) \<and>
     (power_validate d node_obj = Inr () \<and> get_power_state d node_obj = Inr live \<and>
      live \<noteq> POWER_OFF \<longrightarrow>
        result = Inl (NodeInWrongPowerState (obj_uuid node_obj) live) \<and> nodes w' = nodes w)"
proof -
  let ?u = "obj_uuid node_obj"
  let ?dn = "if F_driver \<in> obj_changes node_obj then Some (driver (obj_fields node_obj)) else None"
  let ?t = "\<lparr>task_node = locked_node host ?u row, task_driver = d\<rparr>"
  let ?w1 = "w\<lparr>nodes := (nodes w)(?u \<mapsto> row\<lparr>reservation := Some host\<rparr>),
               trace := trace w @ [Reserve ?u host]\<rparr>"
  have "reg (case ?dn of Some n \<Rightarrow> n | None \<Rightarrow> driver row) = Some d"
    using drv by (simp add: obj_what_changed_def split: if_splits)
  then have acq: "acquire reg host ?u False ?dn w = (Inr ?t, ?w1)"
    using row by (simp add: acquire_exclusive)
  obtain r2 w2 where chk: "update_node_instance_check ?t ?u node_obj ?w1 = (r2, w2)"
    by (cases "update_node_instance_check ?t ?u node_obj ?w1")
  have unfolded: "(result, w') =
      (case r2 of
         Inl e \<Rightarrow> (Inl e, release host ?u False w2)
       | Inr obj' \<Rightarrow> (Inr (fst (save obj' w2)), release host ?u False (snd (save obj' w2))))"
    using run [symmetric] delta acq chk
    by (cases r2)
       (simp_all add: update_node_def with_task_def obj_what_changed_def Let_def case_prod_beta)
  have w': "w' = release host ?u False w2 \<or> w' = release host ?u False (snd (save (projr r2) w2))"
    using unfolded by (cases r2) simp_all
  have validated: "\<exists>evs. trace w2 = trace w @ Reserve ?u host # PowerValidate # evs"
    using chk by (auto simp add: instance_check_eq split: sum.splits)
  have probed: "power_validate d node_obj = Inr () \<Longrightarrow>
      \<exists>evs. trace w2 = trace w @ Reserve ?u host # PowerValidate # GetPowerState # evs"
    using chk by (auto simp add: instance_check_eq split: sum.splits)
  have in_trace: "ev \<in> set evs \<Longrightarrow> trace w2 = trace w @ evs \<Longrightarrow> ev \<in> set (events_since w w')"
    for ev evs
    using w' release_events [of w2 w evs host ?u False]
      release_events [of "snd (save (projr r2) w2)" w evs host ?u False]
    by (auto simp add: save_trace)
  have a: "PowerValidate \<in> set (events_since w w')"
    using validated in_trace by fastforce
  have b: "GetPowerState \<in> set (events_since w w')" if "power_validate d node_obj = Inr ()"
    using probed [OF that] in_trace by fastforce
  have c: "result = Inl (NodeInWrongPowerState ?u live) \<and> nodes w' = nodes w"
    if "power_validate d node_obj = Inr ()" "get_power_state d node_obj = Inr live"
      "live \<noteq> POWER_OFF"
  proof -
    from chk that have "r2 = Inl (NodeInWrongPowerState ?u live)"
      and "w2 = ?w1\<lparr>trace := trace ?w1 @ [PowerValidate, GetPowerState]\<rparr>"
      by (simp_all add: instance_check_eq)
    with unfolded row show ?thesis
      by (cases row) (simp add: release_def map_upd_triv)
  qed
  from a b c show ?thesis by blast
qed

text \<open>
  The amended C8 at \<^verbatim>\<open>test_associate_node_invalid_state\<close>: the machine is
  on and the caller sets \<^verbatim>\<open>instance_uuid\<close>.
\<close>

theorem update_node_instance_uuid_checks_power_witness:
  "F_instance_uuid \<in>
     obj_what_changed ((rpc_node (test_node\<lparr>instance_uuid := Some ''fake-uuid''\<rparr>))
                         \<lparr>obj_changes := {F_instance_uuid}\<rparr>) \<and>
   F_power_state \<notin>
     obj_what_changed ((rpc_node (test_node\<lparr>instance_uuid := Some ''fake-uuid''\<rparr>))
                         \<lparr>obj_changes := {F_instance_uuid}\<rparr>) \<and>
   get_power_state (example_driver\<lparr>get_power_state := \<lambda>n. Inr POWER_ON\<rparr>)
     ((rpc_node (test_node\<lparr>instance_uuid := Some ''fake-uuid''\<rparr>))
        \<lparr>obj_changes := {F_instance_uuid}\<rparr>) = Inr POWER_ON \<and>
   POWER_ON \<noteq> POWER_OFF \<and>
   update_node (example_registry (example_driver\<lparr>get_power_state := \<lambda>n. Inr POWER_ON\<rparr>))
     ''test-host''
     ((rpc_node (test_node\<lparr>instance_uuid := Some ''fake-uuid''\<rparr>))
        \<lparr>obj_changes := {F_instance_uuid}\<rparr>)
     (example_world (test_node\<lparr>power_state := POWER_ON\<rparr>)) =
   (Inl (NodeInWrongPowerState ''uuid1'' POWER_ON),
    \<lparr>nodes = [''uuid1'' \<mapsto> test_node\<lparr>power_state := POWER_ON\<rparr>],
     trace = [Reserve ''uuid1'' ''test-host'', PowerValidate, GetPowerState,
              Release ''uuid1'' ''test-host'']\<rparr>) \<and>
   PowerValidate \<in> set (events_since (example_world (test_node\<lparr>power_state := POWER_ON\<rparr>))
     \<lparr>nodes = [''uuid1'' \<mapsto> test_node\<lparr>power_state := POWER_ON\<rparr>],
      trace = [Reserve ''uuid1'' ''test-host'', PowerValidate, GetPowerState,
               Release ''uuid1'' ''test-host'']\<rparr>) \<and>
   GetPowerState \<in> set (events_since (example_world (test_node\<lparr>power_state := POWER_ON\<rparr>))
     \<lparr>nodes = [''uuid1'' \<mapsto> test_node\<lparr>power_state := POWER_ON\<rparr>],
      trace = [Reserve ''uuid1'' ''test-host'', PowerValidate, GetPowerState,
               Release ''uuid1'' ''test-host'']\<rparr>) \<and>
   nodes \<lparr>nodes = [''uuid1'' \<mapsto> test_node\<lparr>power_state := POWER_ON\<rparr>],
          trace = [Reserve ''uuid1'' ''test-host'', PowerValidate, GetPowerState,
                   Release ''uuid1'' ''test-host'']\<rparr> =
   nodes (example_world (test_node\<lparr>power_state := POWER_ON\<rparr>))"
  (is "?h1 \<and> ?h2 \<and> ?h8 \<and> ?h9 \<and> ?run \<and> ?c1 \<and> ?c2 \<and> ?c3")
proof -
  let ?d = "example_driver\<lparr>get_power_state := \<lambda>n. Inr POWER_ON\<rparr>"
  let ?obj = "(rpc_node (test_node\<lparr>instance_uuid := Some ''fake-uuid''\<rparr>))
                \<lparr>obj_changes := {F_instance_uuid}\<rparr>"
  let ?row = "test_node\<lparr>power_state := POWER_ON\<rparr>"
  have h1: ?h1 by (simp add: obj_what_changed_def)
  have h2: ?h2 by (simp add: obj_what_changed_def)
  have h3: "nodes (example_world ?row) (obj_uuid ?obj) = Some ?row"
    by (simp add: example_defs)
  have h4: "reservation ?row = None" by (simp add: test_node_def)
  have h5: "example_registry ?d
      (if F_driver \<in> obj_what_changed ?obj then driver (obj_fields ?obj) else driver ?row) =
      Some ?d"
    by (simp add: example_defs obj_what_changed_def)
  have h7: "power_validate ?d ?obj = Inr ()" by (simp add: example_defs)
  have h8: ?h8 by simp
  have h9: ?h9 by simp
  have run: ?run
    by (simp add: update_node_def instance_check_eq acquire_def run_simps example_defs)
  from update_node_instance_uuid_checks_power
    [where reg = "example_registry ?d" and d = "?d" and row = "?row" and live = POWER_ON,
     OF h1 h2 h3 h4 h5 run] h7 h8 h9
  have "?c1 \<and> ?c2 \<and> ?c3" by (simp add: example_defs)
  with h1 h2 h8 h9 run show ?thesis by blast
qed

subsection \<open>update_node refuses a power state\<close>

text \<open>
  Claim C9. Every call of \<^verbatim>\<open>update_node\<close> whose delta contains
  \<^verbatim>\<open>power_state\<close> raises \<^verbatim>\<open>IronicException\<close> and leaves the world
  as it was: no reservation is taken, no driver method is called, no field is stored.
\<close>

theorem update_node_rejects_power_state:
  assumes "F_power_state \<in> obj_what_changed node_obj"
  shows "update_node reg host node_obj w =
    (Inl (IronicException
           (Text ''Invalid method call: update_node can not change node state.'')), w)"
  using assms by (simp add: update_node_def)

text \<open>
  C9 at a caller that changes \<^verbatim>\<open>power_state\<close> to
  \<^verbatim>\<open>POWER_ON\<close>.
\<close>

theorem update_node_rejects_power_state_witness:
  "F_power_state \<in>
     obj_what_changed ((rpc_node (test_node\<lparr>power_state := POWER_ON\<rparr>))\<lparr>obj_changes := {F_power_state}\<rparr>) \<and>
   update_node (example_registry example_driver) ''test-host''
     ((rpc_node (test_node\<lparr>power_state := POWER_ON\<rparr>))\<lparr>obj_changes := {F_power_state}\<rparr>)
     (example_world test_node) =
   (Inl (IronicException
          (Text ''Invalid method call: update_node can not change node state.'')),
    example_world test_node)"
  (is "?h \<and> ?c")
proof -
  have h: ?h by (simp add: obj_what_changed_def)
  from update_node_rejects_power_state [OF h] have ?c .
  with h show ?thesis by simp
qed

subsection \<open>A deployment that fails validation\<close>

text \<open>
  Claim C10. When \<^verbatim>\<open>do_node_deploy\<close> (on a node in
  \<^verbatim>\<open>NOSTATE\<close>) or \<^verbatim>\<open>do_node_tear_down\<close> (on a node in
  \<^verbatim>\<open>ACTIVE\<close>, \<^verbatim>\<open>DEPLOYFAIL\<close> or \<^verbatim>\<open>ERROR\<close>) has
  acquired its task and the driver's \<^verbatim>\<open>deploy.validate\<close> raises, the call
  raises the same exception; the stored row is the row at entry with only
  \<^verbatim>\<open>last_error\<close> set to the failure message, so
  \<^verbatim>\<open>provision_state\<close> and \<^verbatim>\<open>target_provision_state\<close> are as
  before; and the only driver method called is \<^verbatim>\<open>validate\<close>.
\<close>

theorem validate_failure_keeps_provision_state:
  "(nodes w (obj_uuid node_obj) = Some row \<and> reservation row = None \<and>
    reg (driver row) = Some d \<and> provision_state row = NOSTATE \<and>
    deploy_validate d (locked_node host (obj_uuid node_obj) row) = Inl e \<longrightarrow>
    do_node_deploy reg host node_obj w =
      (Inl e,
       w\<lparr>nodes := (nodes w)(obj_uuid node_obj \<mapsto>
            row\<lparr>last_error :=
                  Some (Format ''Failed to validate deploy info. Error: %s'' [ExcArg e])\<rparr>),
         trace := trace w @ [Reserve (obj_uuid node_obj) host, DeployValidate,
                             Release (obj_uuid node_obj) host]\<rparr>)) \<and>
   (nodes w' (obj_uuid node_obj') = Some row' \<and> reservation row' = None \<and>
    reg' (driver row') = Some d' \<and> provision_state row' \<in> {ACTIVE, DEPLOYFAIL, ERROR} \<and>
    deploy_validate d' (locked_node host' (obj_uuid node_obj') row') = Inl e' \<longrightarrow>
    do_node_tear_down reg' host' node_obj' w' =
      (Inl e',
       w'\<lparr>nodes := (nodes w')(obj_uuid node_obj' \<mapsto>
            row'\<lparr>last_error :=
                   Some (Format ''Failed to validate info for teardown. Error: %s''
                          [ExcArg e'])\<rparr>),
          trace := trace w' @ [Reserve (obj_uuid node_obj') host', DeployValidate,
                               Release (obj_uuid node_obj') host']\<rparr>))"
  (is "(?deploy_raises \<longrightarrow> ?deploy_result) \<and> (?tear_down_raises \<longrightarrow> ?tear_down_result)")
proof (intro conjI impI)
  assume ?deploy_raises
  then show ?deploy_result
    by (cases row)
       (simp add: do_node_deploy_def acquire_exclusive [where dn = None, simplified] run_simps)
next
  assume ?tear_down_raises
  then show ?tear_down_result
    by (cases row')
       (auto simp add: do_node_tear_down_def acquire_exclusive [where dn = None, simplified]
          run_simps)
qed

text \<open>
  C10 at a driver whose \<^verbatim>\<open>deploy.validate\<close> raises
  \<^verbatim>\<open>InvalidParameterValue\<close>, for a deployment of an undeployed node and
  for a tear-down of an active one.
\<close>

theorem validate_failure_keeps_provision_state_witness:
  "deploy_validate (example_driver\<lparr>deploy_validate := \<lambda>n. Inl (InvalidParameterValue (Text ''no image''))\<rparr>)
     (locked_node ''test-host'' (obj_uuid (rpc_node test_node)) test_node) =
     Inl (InvalidParameterValue (Text ''no image'')) \<and>
   provision_state test_node = NOSTATE \<and>
   provision_state (test_node\<lparr>provision_state := ACTIVE\<rparr>) \<in> {ACTIVE, DEPLOYFAIL, ERROR} \<and>
   do_node_deploy
     (example_registry
        (example_driver\<lparr>deploy_validate := \<lambda>n. Inl (InvalidParameterValue (Text ''no image''))\<rparr>))
     ''test-host'' (rpc_node test_node) (example_world test_node) =
   (Inl (InvalidParameterValue (Text ''no image'')),
    \<lparr>nodes = [''uuid1'' \<mapsto>
        test_node\<lparr>last_error :=
          Some (Format ''Failed to validate deploy info. Error: %s''
                 [ExcArg (InvalidParameterValue (Text ''no image''))])\<rparr>],
     trace = [Reserve ''uuid1'' ''test-host'', DeployValidate, Release ''uuid1'' ''test-host'']\<rparr>) \<and>
   do_node_tear_down
     (example_registry
        (example_driver\<lparr>deploy_validate := \<lambda>n. Inl (InvalidParameterValue (Text ''no image''))\<rparr>))
     ''test-host'' (rpc_node test_node)
     (example_world (test_node\<lparr>provision_state := ACTIVE\<rparr>)) =
   (Inl (InvalidParameterValue (Text ''no image'')),
    \<lparr>nodes = [''uuid1'' \<mapsto>
        test_node\<lparr>provision_state := ACTIVE,
          last_error :=
            Some (Format ''Failed to validate info for teardown. Error: %s''
                   [ExcArg (InvalidParameterValue (Text ''no image''))])\<rparr>],
     trace = [Reserve ''uuid1'' ''test-host'', DeployValidate, Release ''uuid1'' ''test-host'']\<rparr>)"
  (is "?raises \<and> ?undeployed \<and> ?deployed \<and> ?c1 \<and> ?c2")
proof -
  let ?d = "example_driver\<lparr>deploy_validate := \<lambda>n. Inl (InvalidParameterValue (Text ''no image''))\<rparr>"
  let ?trow = "test_node\<lparr>provision_state := ACTIVE\<rparr>"
  have raises: ?raises by simp
  have undeployed: ?undeployed by (simp add: test_node_def)
  have deployed: ?deployed by simp
  have deploy_raises:
    "nodes (example_world test_node) (obj_uuid (rpc_node test_node)) = Some test_node \<and>
     reservation test_node = None \<and>
     example_registry ?d (driver test_node) = Some ?d \<and> provision_state test_node = NOSTATE \<and>
     deploy_validate ?d (locked_node ''test-host'' (obj_uuid (rpc_node test_node)) test_node) =
       Inl (InvalidParameterValue (Text ''no image''))"
    by (simp add: example_defs)
  have tear_down_raises:
    "nodes (example_world ?trow) (obj_uuid (rpc_node test_node)) = Some ?trow \<and>
     reservation ?trow = None \<and>
     example_registry ?d (driver ?trow) = Some ?d \<and>
     provision_state ?trow \<in> {ACTIVE, DEPLOYFAIL, ERROR} \<and>
     deploy_validate ?d (locked_node ''test-host'' (obj_uuid (rpc_node test_node)) ?trow) =
       Inl (InvalidParameterValue (Text ''no image''))"
    by (simp add: example_defs)
  from validate_failure_keeps_provision_state
    [where reg = "example_registry ?d" and d = "?d" and row = test_node
       and w = "example_world test_node" and node_obj = "rpc_node test_node"
       and host = "''test-host''" and e = "InvalidParameterValue (Text ''no image'')"
       and reg' = "example_registry ?d" and d' = "?d" and row' = "?trow"
       and w' = "example_world ?trow" and node_obj' = "rpc_node test_node"
       and host' = "''test-host''" and e' = "InvalidParameterValue (Text ''no image'')"]
    deploy_raises tear_down_raises
  have "?c1 \<and> ?c2" by (simp add: example_defs)
  with raises undeployed deployed show ?thesis by simp
qed

end
